theory Spec2Isabelle
  imports Main "HOL-Library.Word" "HOL-Library.Monad_Syntax"
begin

unbundle bit_operations_syntax

section \<open>The allocator of mm.c over a flat word memory\<close>

text \<open>
  The embedding follows \<^verbatim>\<open>src/mm.c\<close> on an LP64 little-endian machine:
  \<^verbatim>\<open>size_t\<close> and \<^verbatim>\<open>void *\<close> are 64-bit words, \<^verbatim>\<open>int\<close> is a 32-bit word.
  Memory is a total map from addresses to 64-bit words; the heap base is 8-byte
  aligned, so every load and store of the allocator is at an 8-byte aligned address
  and one map entry stands for the eight bytes from that address. A store outside the
  provider's region lands in the map like any other (C gives it no meaning).
  Every function takes the state and returns the new one. A function with a loop over
  a free list returns an option: \<open>None\<close> is a call that does not return, by a loop that
  never ends or by the fault of \<^verbatim>\<open>memmove\<close> to the null pointer in the worst case of
  \<^verbatim>\<open>mm_realloc\<close>.
\<close>

type_synonym addr = "64 word"
type_synonym size_t = "64 word"
type_synonym c_int = "32 word"

record heap_state =
  mem :: "addr \<Rightarrow> size_t"
  mem_start_brk :: addr
  mem_brk :: addr
  mem_max_addr :: addr
  free_seglist :: addr
  stdout :: "string list"

definition load :: "heap_state \<Rightarrow> addr \<Rightarrow> size_t" where
  "load st a = mem st a"

definition store :: "heap_state \<Rightarrow> addr \<Rightarrow> size_t \<Rightarrow> heap_state" where
  "store st a v = st\<lparr>mem := (mem st)(a := v)\<rparr>"

subsection \<open>Conversions between \<^verbatim>\<open>size_t\<close> and \<^verbatim>\<open>int\<close>\<close>

definition int_of_size_t :: "size_t \<Rightarrow> c_int" where
  "int_of_size_t x = ucast x"

definition size_t_of_int :: "c_int \<Rightarrow> size_t" where
  "size_t_of_int i = scast i"

subsection \<open>The heap provider (memlib)\<close>

text \<open>
  Modelled from the spec: the heap provider \<^verbatim>\<open>memlib\<close> (\<^verbatim>\<open>mem_sbrk\<close>,
  \<^verbatim>\<open>mem_heap_lo\<close>, \<^verbatim>\<open>mem_heap_hi\<close>, \<^verbatim>\<open>mem_heapsize\<close>) is not under src/.
  \<^verbatim>\<open>extend(delta)\<close> grows the region by \<open>delta\<close> bytes at its high end and returns
  the previous high boundary, or the failure sentinel when growth is impossible; growth
  is impossible for a negative \<open>delta\<close> and past the region's capacity
  \<open>mem_max_addr\<close>. The failure sentinel is the null address, the value the callers in
  mm.c compare the result with. \<^verbatim>\<open>low()\<close> is the first byte, \<^verbatim>\<open>high()\<close> the last byte
  and \<^verbatim>\<open>size()\<close> the number of bytes of the region.
\<close>

definition mem_sbrk :: "heap_state \<Rightarrow> c_int \<Rightarrow> addr \<times> heap_state" where
  "mem_sbrk st incr =
     (if sint incr < 0 \<or> uint (mem_brk st) + sint incr > uint (mem_max_addr st)
      then (0, st)
      else (mem_brk st, st\<lparr>mem_brk := mem_brk st + size_t_of_int incr\<rparr>))"

text \<open>Modelled from the spec: \<^verbatim>\<open>low()\<close>, the address of the first byte of the region.\<close>

definition mem_heap_lo :: "heap_state \<Rightarrow> addr" where
  "mem_heap_lo st = mem_start_brk st"

text \<open>Modelled from the spec: \<^verbatim>\<open>high()\<close>, the address of the last byte of the region.\<close>

definition mem_heap_hi :: "heap_state \<Rightarrow> addr" where
  "mem_heap_hi st = mem_brk st - 1"

text \<open>Modelled from the spec: \<^verbatim>\<open>size()\<close>, the number of bytes of the region.\<close>

definition mem_heapsize :: "heap_state \<Rightarrow> size_t" where
  "mem_heapsize st = mem_brk st - mem_start_brk st"

subsection \<open>The macros\<close>

definition ALIGNMENT :: size_t where
  "ALIGNMENT = 8"

definition ALIGN :: "size_t \<Rightarrow> size_t" where
  "ALIGN sz = (sz + (ALIGNMENT - 1)) AND NOT 7"

definition GETSIZE :: "size_t \<Rightarrow> size_t" where
  "GETSIZE header = header AND (- 2)"

definition GETDIRTYBIT :: "size_t \<Rightarrow> size_t" where
  "GETDIRTYBIT header = header AND 1"

definition SIZE_T_SIZE :: size_t where
  "SIZE_T_SIZE = ALIGN 8"

definition MAXPOW :: int where
  "MAXPOW = 25"

definition GETFOOTER :: "heap_state \<Rightarrow> addr \<Rightarrow> addr" where
  "GETFOOTER st header_ptr = header_ptr + GETSIZE (load st header_ptr) - SIZE_T_SIZE"

definition GETNEXTBLOCK :: "heap_state \<Rightarrow> addr \<Rightarrow> addr" where
  "GETNEXTBLOCK st header_ptr = header_ptr + GETSIZE (load st header_ptr)"

definition GETNEXTFREE :: "heap_state \<Rightarrow> addr \<Rightarrow> size_t" where
  "GETNEXTFREE st header_ptr = load st (header_ptr + SIZE_T_SIZE)"

definition GETPREVFREE :: "heap_state \<Rightarrow> addr \<Rightarrow> size_t" where
  "GETPREVFREE st header_ptr = load st (header_ptr + 2 * SIZE_T_SIZE)"

definition set_NEXTFREE :: "heap_state \<Rightarrow> addr \<Rightarrow> size_t \<Rightarrow> heap_state" where
  "set_NEXTFREE st header_ptr v = store st (header_ptr + SIZE_T_SIZE) v"

definition set_PREVFREE :: "heap_state \<Rightarrow> addr \<Rightarrow> size_t \<Rightarrow> heap_state" where
  "set_PREVFREE st header_ptr v = store st (header_ptr + 2 * SIZE_T_SIZE) v"

text \<open>\<^verbatim>\<open>free_seglist[index]\<close>, read and written; a pointer is eight bytes.\<close>

definition seglist_get :: "heap_state \<Rightarrow> int \<Rightarrow> addr" where
  "seglist_get st index = load st (free_seglist st + 8 * of_int index)"

definition seglist_set :: "heap_state \<Rightarrow> int \<Rightarrow> addr \<Rightarrow> heap_state" where
  "seglist_set st index v = store st (free_seglist st + 8 * of_int index) v"

subsection \<open>\<^verbatim>\<open>memmove\<close>\<close>

text \<open>
  \<^verbatim>\<open>memmove(dst, src, n)\<close> with \<open>dst\<close> and \<open>src\<close> 8-byte aligned: every word of
  the destination is read from the memory as it was before the call, so overlapping
  ranges are copied as \<^verbatim>\<open>memmove\<close> copies them. When \<open>n\<close> is no multiple of 8, the
  last word of the destination takes its low \<open>n mod 8\<close> bytes from the source and keeps
  its high bytes (little endian).
\<close>

definition memmove :: "heap_state \<Rightarrow> addr \<Rightarrow> addr \<Rightarrow> size_t \<Rightarrow> heap_state" where
  "memmove st dst src n =
     (let old = mem st; whole = n AND NOT 7; part = unat (n AND 7) in
      st\<lparr>mem := (\<lambda>a.
         if a - dst < whole then old (src + (a - dst))
         else if a - dst = whole \<and> part \<noteq> 0
           then (take_bit (8 * part) (old (src + whole))) OR
                (old a AND NOT (mask (8 * part)))
         else old a)\<rparr>)"

subsection \<open>\<^verbatim>\<open>seglist_index\<close>\<close>

function seglist_index_loop :: "size_t \<Rightarrow> int \<Rightarrow> int" where
  "seglist_index_loop sz rsp =
     (if sz \<noteq> 0 then seglist_index_loop (drop_bit 1 sz) (rsp + 1) else rsp)"
  by pat_completeness auto
termination
proof (relation "measure (\<lambda>(sz, rsp). unat sz)")
  show "wf (measure (\<lambda>(sz :: size_t, rsp :: int). unat sz))"
    by simp
next
  fix sz :: size_t and rsp :: int
  assume "sz \<noteq> 0"
  then have "0 < unat sz"
    by (simp add: unat_gt_0)
  then have "unat sz div 2 < unat sz"
    by simp
  then show "((drop_bit 1 sz, rsp + 1), (sz, rsp)) \<in> measure (\<lambda>(sz, rsp). unat sz)"
    by (simp add: unat_drop_bit_eq drop_bit_eq_div unat_div)
qed

declare seglist_index_loop.simps [simp del]

definition seglist_index :: "size_t \<Rightarrow> int" where
  "seglist_index sz =
     (if sz < 64 then 0
      else let rsp = seglist_index_loop sz 0 in
        if rsp - 6 < MAXPOW then rsp - 6 else MAXPOW - 1)"

subsection \<open>\<^verbatim>\<open>get_optimal_free_block\<close>\<close>

text \<open>
  The inner loop walks one bucket; a null result stands for leaving the loop at the end
  of the list (the source returns from inside the loop only with a non-null pointer).
\<close>

partial_function (option) bucket_scan :: "heap_state \<Rightarrow> addr \<Rightarrow> size_t \<Rightarrow> addr option" where
  "bucket_scan st free_list sz =
     (if free_list \<noteq> 0
      then (if GETSIZE (load st free_list) \<ge> sz then Some free_list
            else bucket_scan st (GETNEXTFREE st free_list) sz)
      else Some 0)"

partial_function (option) get_optimal_loop :: "heap_state \<Rightarrow> int \<Rightarrow> size_t \<Rightarrow> addr option" where
  "get_optimal_loop st index sz =
     (if index < MAXPOW
      then do {
        r \<leftarrow> bucket_scan st (seglist_get st index) sz;
        if r \<noteq> 0 then Some r else get_optimal_loop st (index + 1) sz
      }
      else Some 0)"

declare bucket_scan.simps [code]
declare get_optimal_loop.simps [code]

definition get_optimal_free_block :: "heap_state \<Rightarrow> size_t \<Rightarrow> addr option" where
  "get_optimal_free_block st sz = get_optimal_loop st (seglist_index sz) sz"

subsection \<open>\<^verbatim>\<open>remove_link\<close> and \<^verbatim>\<open>add_to_list\<close>\<close>

definition remove_link :: "heap_state \<Rightarrow> addr \<Rightarrow> heap_state" where
  "remove_link st ptr =
     (if GETNEXTFREE st ptr = 0 \<and> GETPREVFREE st ptr = 0
      then seglist_set st (seglist_index (GETSIZE (load st ptr))) 0
      else if GETNEXTFREE st ptr = 0
      then set_NEXTFREE st (GETPREVFREE st ptr) 0
      else if GETPREVFREE st ptr = 0
      then (let st1 = set_PREVFREE st (GETNEXTFREE st ptr) 0
            in seglist_set st1 (seglist_index (GETSIZE (load st1 ptr))) (GETNEXTFREE st1 ptr))
      else (let st1 = set_NEXTFREE st (GETPREVFREE st ptr) (GETNEXTFREE st ptr)
            in set_PREVFREE st1 (GETNEXTFREE st1 ptr) (GETPREVFREE st1 ptr)))"

text \<open>
  The walk of \<^verbatim>\<open>add_to_list\<close>: the source applies \<^verbatim>\<open>GETSIZE\<close> to the link itself
  (\<^verbatim>\<open>GETSIZE(GETNEXTFREE(free_slot))\<close>), the address of the next free block, and
  compares that with the size of the new block.
\<close>

partial_function (option) add_to_list_walk :: "heap_state \<Rightarrow> addr \<Rightarrow> addr \<Rightarrow> addr option" where
  "add_to_list_walk st ptr free_slot =
     (if GETNEXTFREE st free_slot \<noteq> 0 \<and>
         GETSIZE (GETNEXTFREE st free_slot) < GETSIZE (load st ptr)
      then add_to_list_walk st ptr (GETNEXTFREE st free_slot)
      else Some free_slot)"

declare add_to_list_walk.simps [code]

definition add_to_list :: "heap_state \<Rightarrow> addr \<Rightarrow> heap_state option" where
  "add_to_list st ptr =
     (let index = seglist_index (GETSIZE (load st ptr)) in
      if seglist_get st index = 0
      then (let st1 = seglist_set st index ptr;
                st2 = set_NEXTFREE st1 ptr 0
            in Some (set_PREVFREE st2 ptr 0))
      else do {
        free_slot \<leftarrow> add_to_list_walk st ptr (seglist_get st index);
        let st1 = set_NEXTFREE st ptr (GETNEXTFREE st free_slot);
        let st2 = set_PREVFREE st1 ptr free_slot;
        let st3 = (if GETNEXTFREE st2 free_slot \<noteq> 0
                   then set_PREVFREE st2 (GETNEXTFREE st2 free_slot) ptr else st2);
        Some (set_NEXTFREE st3 free_slot ptr)
      })"

subsection \<open>\<^verbatim>\<open>mm_init\<close>\<close>

function mm_init_loop :: "heap_state \<Rightarrow> int \<Rightarrow> heap_state" where
  "mm_init_loop st i =
     (if i < MAXPOW then mm_init_loop (seglist_set st i 0) (i + 1) else st)"
  by pat_completeness auto
termination
  by (relation "measure (\<lambda>(st, i). nat (MAXPOW - i))") auto

declare mm_init_loop.simps [simp del]

definition mm_init :: "heap_state \<Rightarrow> int \<times> heap_state" where
  "mm_init st =
     (let st1 = snd (mem_sbrk st (int_of_size_t (ALIGN (of_int MAXPOW * 8))));
          st2 = st1\<lparr>free_seglist := mem_heap_lo st1\<rparr>
      in if free_seglist st2 = 0 then (0, st2)
         else (1, mm_init_loop st2 0))"

subsection \<open>\<^verbatim>\<open>mm_malloc\<close>\<close>

text \<open>The last two stores of \<^verbatim>\<open>mm_malloc\<close> on either path, and its result.\<close>

definition malloc_finish :: "heap_state \<Rightarrow> addr \<Rightarrow> size_t \<Rightarrow> (addr \<times> heap_state) option" where
  "malloc_finish st p new_header =
     (let st1 = store st p new_header;
          st2 = store st1 (GETFOOTER st1 p) new_header
      in Some (p + SIZE_T_SIZE, st2))"

text \<open>
  The branch \<^verbatim>\<open>p != NULL\<close> (lines 145 to 160): a block of the index is taken, and
  split when it is large. \<^verbatim>\<open>old_size\<close> is an \<^verbatim>\<open>int\<close>.
\<close>

definition malloc_found :: "heap_state \<Rightarrow> addr \<Rightarrow> size_t \<Rightarrow> size_t \<Rightarrow> (addr \<times> heap_state) option" where
  "malloc_found st p new_size new_header =
     (let st1 = remove_link st p;
          old_size = int_of_size_t (GETSIZE (load st1 p))
      in if size_t_of_int old_size - new_size \<ge> ALIGN (4 * SIZE_T_SIZE)
         then (let leftover = p + new_size;
                   st2 = store st1 leftover (size_t_of_int old_size - new_size);
                   st3 = store st2 (GETFOOTER st2 leftover) (size_t_of_int old_size - new_size)
               in do {
                 st4 \<leftarrow> add_to_list st3 leftover;
                 malloc_finish st4 p new_header
               })
         else malloc_finish st1 p (size_t_of_int (old_size OR 1)))"

text \<open>
  The branch \<^verbatim>\<open>p == NULL\<close> (lines 161 to 224): the heap is extended. \<open>end0\<close> is
  \<^verbatim>\<open>mem_heap_hi()\<close>; the word at \<open>end\<close> is read as the footer of the last block. The
  result of \<^verbatim>\<open>mem_sbrk\<close> is dropped at line 180 and tested on the three other paths.
\<close>

definition malloc_extend :: "heap_state \<Rightarrow> addr \<Rightarrow> size_t \<Rightarrow> (addr \<times> heap_state) option" where
  "malloc_extend st end0 new_header =
     (let end = end0 - (SIZE_T_SIZE - 1) in
      if mem_heapsize st \<noteq> 0 \<and> GETDIRTYBIT (load st end) = 0
      then (if GETSIZE (load st end) > 50 * SIZE_T_SIZE
            then (let p = end - GETSIZE (load st end) + SIZE_T_SIZE;
                      st1 = snd (mem_sbrk st (int_of_size_t
                              (size_t_of_int (int_of_size_t (GETSIZE new_header))
                                 - GETSIZE (load st end))));
                      st2 = remove_link st1 p
                  in malloc_finish st2 p new_header)
            else (let (p, st1) = mem_sbrk st (int_of_size_t (GETSIZE new_header))
                  in if p = 0 then Some (0, st1) else malloc_finish st1 p new_header))
      else (if GETSIZE new_header > 50 * SIZE_T_SIZE
            then (let (p, st1) = mem_sbrk st (int_of_size_t (GETSIZE new_header))
                  in if p = 0 then Some (0, st1) else malloc_finish st1 p new_header)
            else (let (p, st1) = mem_sbrk st (int_of_size_t (GETSIZE new_header) * 2)
                  in if p = 0 then Some (0, st1)
                     else (let st2 = store st1 (p + GETSIZE new_header) (new_header AND (- 2));
                               st3 = store st2 (GETFOOTER st2 (p + GETSIZE new_header))
                                       (new_header AND (- 2))
                           in do {
                             st4 \<leftarrow> add_to_list st3 (p + GETSIZE new_header);
                             malloc_finish st4 p new_header
                           }))))"

definition mm_malloc :: "heap_state \<Rightarrow> size_t \<Rightarrow> (addr \<times> heap_state) option" where
  "mm_malloc st sz =
     (if sz = 0 then Some (0, st)
      else (let new_size0 = ALIGN (sz + 2 * SIZE_T_SIZE);
                new_size = (if new_size0 < ALIGN (4 * SIZE_T_SIZE)
                            then ALIGN (4 * SIZE_T_SIZE) else new_size0);
                new_header = new_size OR 1
            in do {
              p \<leftarrow> get_optimal_free_block st new_size;
              let end = mem_heap_hi st;
              if p \<noteq> 0 then malloc_found st p new_size new_header
              else malloc_extend st end new_header
            }))"

subsection \<open>\<^verbatim>\<open>mm_coalesce\<close> and \<^verbatim>\<open>mm_free\<close>\<close>

text \<open>
  \<^verbatim>\<open>mm_coalesce\<close> takes the address of the caller's pointer; the model returns the new
  value of that pointer with the state.
\<close>

definition mm_coalesce :: "heap_state \<Rightarrow> addr \<Rightarrow> addr \<times> heap_state" where
  "mm_coalesce st header_ptr =
     (let start = mem_heap_lo st + ALIGN (of_int MAXPOW * 8);
          end = mem_heap_hi st;
          next_header = header_ptr + GETSIZE (load st header_ptr);
          st3 = (if next_header < end \<and> GETDIRTYBIT (load st next_header) = 0
                 then (let st1 = remove_link st next_header;
                           st2 = store st1 header_ptr
                                   (load st1 header_ptr + GETSIZE (load st1 next_header))
                       in store st2 (GETFOOTER st2 next_header) (load st2 header_ptr))
                 else st);
          footer = GETFOOTER st3 header_ptr;
          prev_footer = footer - GETSIZE (load st3 footer)
      in if prev_footer \<le> start then (header_ptr, st3)
         else (let prev_header = prev_footer - GETSIZE (load st3 prev_footer) + SIZE_T_SIZE
               in if GETDIRTYBIT (load st3 prev_header) = 0
                  then (let st4 = remove_link st3 prev_header;
                            st5 = store st4 prev_header
                                    (load st4 prev_header + GETSIZE (load st4 header_ptr));
                            st6 = store st5 footer (load st5 prev_header)
                        in (prev_header, st6))
                  else (header_ptr, st3)))"

definition free_warning :: string where
  "free_warning = ''Warning : attempting to free a free block''"

definition printf :: "heap_state \<Rightarrow> string \<Rightarrow> heap_state" where
  "printf st line = st\<lparr>stdout := stdout st @ [line]\<rparr>"

definition mm_free :: "heap_state \<Rightarrow> addr \<Rightarrow> heap_state option" where
  "mm_free st ptr =
     (let header_ptr = ptr - SIZE_T_SIZE in
      if GETDIRTYBIT (load st header_ptr) = 0
      then Some (printf st free_warning)
      else (let (header_ptr1, st1) = mm_coalesce st header_ptr in
            do {
              st2 \<leftarrow> add_to_list st1 header_ptr1;
              Some (store st2 header_ptr1 (load st2 header_ptr1 AND (- 2)))
            }))"

subsection \<open>\<^verbatim>\<open>mm_realloc\<close>\<close>

text \<open>Growing between a free previous and a free next block (lines 469 to 506).\<close>

definition realloc_sandwich ::
  "heap_state \<Rightarrow> addr \<Rightarrow> size_t \<Rightarrow> size_t \<Rightarrow> addr \<Rightarrow> addr \<Rightarrow> (addr \<times> heap_state) option" where
  "realloc_sandwich st ptr newsize current_size next_header prev_footer =
     (let new_free_size =
            GETSIZE (load st next_header) + current_size + GETSIZE (load st prev_footer) - newsize;
          st1 = remove_link st next_header;
          prev_header = prev_footer - GETSIZE (load st1 prev_footer) + SIZE_T_SIZE;
          st2 = remove_link st1 prev_header
      in if new_free_size < 4 * SIZE_T_SIZE
         then (let newsize1 = new_free_size + newsize;
                   new_header = prev_header;
                   st3 = memmove st2 (new_header + SIZE_T_SIZE) ptr (current_size - SIZE_T_SIZE);
                   st4 = store st3 new_header (newsize1 OR 1);
                   st5 = store st4 (GETFOOTER st4 new_header) (newsize1 OR 1)
               in Some (new_header + SIZE_T_SIZE, st5))
         else (let new_header = next_header + GETSIZE (load st2 next_header) - newsize;
                   st3 = memmove st2 (new_header + SIZE_T_SIZE) ptr (current_size - SIZE_T_SIZE);
                   st4 = store st3 new_header (newsize OR 1);
                   st5 = store st4 (GETFOOTER st4 new_header) (newsize OR 1);
                   st6 = store st5 prev_header (new_free_size AND (- 2));
                   st7 = store st6 (GETFOOTER st6 prev_header) (new_free_size AND (- 2))
               in do {
                 st8 \<leftarrow> add_to_list st7 prev_header;
                 Some (new_header + SIZE_T_SIZE, st8)
               }))"

text \<open>Growing into a free next block (lines 508 to 537).\<close>

definition realloc_next ::
  "heap_state \<Rightarrow> addr \<Rightarrow> size_t \<Rightarrow> size_t \<Rightarrow> addr \<Rightarrow> addr \<Rightarrow> (addr \<times> heap_state) option" where
  "realloc_next st newptr newsize current_size header next_header =
     (let st1 = remove_link st next_header in
      if GETSIZE (load st1 next_header) + current_size - newsize < 4 * SIZE_T_SIZE
      then (let newheader = (GETSIZE (load st1 next_header) + current_size) OR 1;
                st2 = store st1 header newheader;
                st3 = store st2 (GETFOOTER st2 header) newheader
            in Some (newptr, st3))
      else (let newheader = newsize OR 1;
                header_tmp = GETSIZE (load st1 next_header) + current_size - newsize;
                free_block_header = header + newsize;
                st2 = store st1 free_block_header header_tmp;
                st3 = store st2 (GETFOOTER st2 free_block_header) header_tmp
            in do {
              st4 \<leftarrow> add_to_list st3 free_block_header;
              let st5 = store st4 header newheader;
              let st6 = store st5 (GETFOOTER st5 header) newheader;
              if free_block_header \<noteq> 0
              then Some (newptr, snd (mm_coalesce st6 free_block_header))
              else Some (newptr, st6)
            }))"

text \<open>Growing into a free previous block (lines 538 to 568).\<close>

definition realloc_prev ::
  "heap_state \<Rightarrow> addr \<Rightarrow> size_t \<Rightarrow> size_t \<Rightarrow> addr \<Rightarrow> addr \<Rightarrow> (addr \<times> heap_state) option" where
  "realloc_prev st ptr newsize current_size header prev_footer =
     (let prev_header = prev_footer - GETSIZE (load st prev_footer) + SIZE_T_SIZE;
          st1 = remove_link st prev_header;
          available_size = GETSIZE (load st1 prev_footer) + current_size;
          new_free_size = available_size - newsize
      in if new_free_size < 4 * SIZE_T_SIZE
         then (let new_header = prev_header;
                   st2 = memmove st1 (new_header + SIZE_T_SIZE) ptr (current_size - SIZE_T_SIZE);
                   st3 = store st2 new_header (available_size OR 1);
                   st4 = store st3 (GETFOOTER st3 new_header) (available_size OR 1)
               in Some (new_header + SIZE_T_SIZE, st4))
         else (let new_header = header + current_size - newsize;
                   st2 = memmove st1 (new_header + SIZE_T_SIZE) ptr (current_size - SIZE_T_SIZE);
                   st3 = store st2 new_header (newsize OR 1);
                   st4 = store st3 (GETFOOTER st3 new_header) (newsize OR 1);
                   st5 = store st4 prev_header (new_free_size AND (- 2));
                   st6 = store st5 (GETFOOTER st5 prev_header) (new_free_size AND (- 2))
               in do {
                 st7 \<leftarrow> add_to_list st6 prev_header;
                 Some (new_header + SIZE_T_SIZE, st7)
               }))"

text \<open>
  The block is the last of the heap (lines 570 to 588). The source returns \<^verbatim>\<open>ptr\<close>,
  also when the block now starts at the previous block's header.
\<close>

definition realloc_last ::
  "heap_state \<Rightarrow> addr \<Rightarrow> size_t \<Rightarrow> size_t \<Rightarrow> addr \<Rightarrow> addr \<Rightarrow> bool \<Rightarrow> (addr \<times> heap_state) option" where
  "realloc_last st ptr newsize current_size header prev_footer prev_footer_exists =
     (let (header1, addition, st3) =
            (if prev_footer_exists \<and> GETDIRTYBIT (load st prev_footer) = 0
             then (let prev_header = prev_footer - GETSIZE (load st prev_footer) + SIZE_T_SIZE;
                       st1 = remove_link st prev_header;
                       st2 = memmove st1 (prev_header + SIZE_T_SIZE) ptr
                               (current_size - SIZE_T_SIZE)
                   in (prev_header, newsize - (current_size + GETSIZE (load st2 prev_header)), st2))
             else (header, newsize - current_size, st));
          (r, st4) = mem_sbrk st3 (int_of_size_t addition)
      in if r = 0 then Some (0, st4)
         else (let st5 = store st4 header1 (newsize OR 1);
                   footer = GETFOOTER st5 header1;
                   st6 = store st5 footer (newsize OR 1)
               in Some (ptr, st6)))"

text \<open>
  The worst case (lines 590 to 594): a new block, a copy, and the old block freed. The
  result of \<^verbatim>\<open>mm_malloc\<close> is not tested: when it is null, \<^verbatim>\<open>memmove\<close> copies at
  least 30 bytes to the address 0 and the process faults there, before \<^verbatim>\<open>mm_free\<close>.
\<close>

definition realloc_worst ::
  "heap_state \<Rightarrow> addr \<Rightarrow> size_t \<Rightarrow> size_t \<Rightarrow> (addr \<times> heap_state) option" where
  "realloc_worst st ptr newsize current_size =
     do {
       (newptr, st1) \<leftarrow> mm_malloc st newsize;
       if newptr = 0 then None
       else do {
         let st2 = memmove st1 newptr ptr (current_size - 2);
         st3 \<leftarrow> mm_free st2 ptr;
         Some (newptr, st3)
       }
     }"

text \<open>Shrinking (lines 596 to 617): the tail is inserted, then coalesced.\<close>

definition realloc_shrink ::
  "heap_state \<Rightarrow> addr \<Rightarrow> size_t \<Rightarrow> size_t \<Rightarrow> addr \<Rightarrow> (addr \<times> heap_state) option" where
  "realloc_shrink st ptr newsize current_size header =
     (if current_size - newsize > 4 * SIZE_T_SIZE
      then (let newheader = newsize OR 1;
                st1 = store st header newheader;
                footer = GETFOOTER st1 header;
                st2 = store st1 footer newheader;
                newheader1 = current_size - newsize;
                free_block_header = footer + SIZE_T_SIZE;
                st3 = store st2 free_block_header newheader1;
                st4 = store st3 (GETFOOTER st3 free_block_header) newheader1
            in do {
              st5 \<leftarrow> add_to_list st4 free_block_header;
              Some (ptr, snd (mm_coalesce st5 free_block_header))
            })
      else Some (ptr, st))"

definition mm_realloc :: "heap_state \<Rightarrow> addr \<Rightarrow> size_t \<Rightarrow> (addr \<times> heap_state) option" where
  "mm_realloc st ptr newsize0 =
     (let oldptr = ptr;
          newptr = oldptr;
          newsize1 = ALIGN (newsize0 + 2 * SIZE_T_SIZE);
          newsize = (if newsize1 < ALIGN (4 * SIZE_T_SIZE) then ALIGN (4 * SIZE_T_SIZE)
                     else newsize1);
          header = oldptr - SIZE_T_SIZE;
          current_size = GETSIZE (load st header)
      in if newsize > current_size
         then (let start = mem_heap_lo st + ALIGN (of_int MAXPOW * 8);
                   end = mem_heap_hi st;
                   next_header = header + GETSIZE (load st header);
                   prev_footer = header - SIZE_T_SIZE;
                   next_header_exists = (next_header \<le> end);
                   prev_footer_exists = (prev_footer \<ge> start)
               in if prev_footer_exists \<and> next_header_exists \<and>
                     GETDIRTYBIT (load st next_header) = 0 \<and>
                     GETDIRTYBIT (load st prev_footer) = 0 \<and>
                     GETSIZE (load st next_header) + current_size + GETSIZE (load st prev_footer)
                       \<ge> newsize
                  then realloc_sandwich st ptr newsize current_size next_header prev_footer
                  else if next_header_exists \<and> GETDIRTYBIT (load st next_header) = 0 \<and>
                     GETSIZE (load st next_header) + current_size \<ge> newsize
                  then realloc_next st newptr newsize current_size header next_header
                  else if prev_footer_exists \<and> GETDIRTYBIT (load st prev_footer) = 0 \<and>
                     GETSIZE (load st prev_footer) + current_size \<ge> newsize
                  then realloc_prev st ptr newsize current_size header prev_footer
                  else if \<not> next_header_exists
                  then realloc_last st ptr newsize current_size header prev_footer
                         prev_footer_exists
                  else realloc_worst st ptr newsize current_size)
         else realloc_shrink st ptr newsize current_size header)"

section \<open>Traces of API calls and what they leave in the heap\<close>

text \<open>
  A provider whose region starts at \<open>base\<close>, is empty, and can grow to \<open>cap\<close> bytes.
  \<open>m0\<close> is what the memory holds before the first store: the region is not
  initialised by the provider.
\<close>

definition fresh_heap :: "(addr \<Rightarrow> size_t) \<Rightarrow> addr \<Rightarrow> size_t \<Rightarrow> heap_state" where
  "fresh_heap m0 base cap =
     \<lparr>mem = m0, mem_start_brk = base, mem_brk = base, mem_max_addr = base + cap,
      free_seglist = 0, stdout = []\<rparr>"

definition zero_mem :: "addr \<Rightarrow> size_t" where
  "zero_mem = (\<lambda>a. 0)"

definition heap_base :: addr where
  "heap_base = 0x10000000"

text \<open>The provider of the test harness: 20 MiB of capacity.\<close>

definition heap0 :: "(addr \<Rightarrow> size_t) \<Rightarrow> heap_state" where
  "heap0 m0 = fresh_heap m0 heap_base 0x1400000"

text \<open>
  A request of the caller. \<open>Free i\<close> and \<open>Realloc i n\<close> name their pointer by its
  position in the list of the pointers returned so far (by \<open>Malloc\<close> and \<open>Realloc\<close>
  requests, in order).
\<close>

datatype request = Malloc size_t | Free nat | Realloc nat size_t

fun run :: "heap_state \<Rightarrow> addr list \<Rightarrow> request list \<Rightarrow> (addr list \<times> heap_state) option" where
  "run st ps [] = Some (ps, st)"
| "run st ps (Malloc n # rs) =
     do { (p, st1) \<leftarrow> mm_malloc st n; run st1 (ps @ [p]) rs }"
| "run st ps (Free i # rs) =
     (if i < length ps then do { st1 \<leftarrow> mm_free st (ps ! i); run st1 ps rs } else None)"
| "run st ps (Realloc i n # rs) =
     (if i < length ps
      then do { (p, st1) \<leftarrow> mm_realloc st (ps ! i) n; run st1 (ps @ [p]) rs }
      else None)"

text \<open>\<^verbatim>\<open>mm_init\<close> on the provider, then the requests.\<close>

definition trace :: "heap_state \<Rightarrow> request list \<Rightarrow> (addr list \<times> heap_state) option" where
  "trace h rs = run (snd (mm_init h)) [] rs"

definition returned :: "heap_state \<Rightarrow> request list \<Rightarrow> addr list option" where
  "returned h rs = map_option fst (trace h rs)"

definition final :: "heap_state \<Rightarrow> request list \<Rightarrow> heap_state option" where
  "final h rs = map_option snd (trace h rs)"

subsection \<open>Observations of a state\<close>

text \<open>
  The blocks of the heap in address order, from the end of the bucket array to the end
  of the heap, each with its address, its header word and its footer word.
\<close>

partial_function (option) blocks_from :: "heap_state \<Rightarrow> addr \<Rightarrow> (addr \<times> size_t \<times> size_t) list option" where
  "blocks_from st cur =
     (if cur < mem_heap_hi st
      then do {
        rest \<leftarrow> blocks_from st (GETNEXTBLOCK st cur);
        Some ((cur, load st cur, load st (GETFOOTER st cur)) # rest)
      }
      else Some [])"

declare blocks_from.simps [code]

definition heap_blocks :: "heap_state \<Rightarrow> (addr \<times> size_t \<times> size_t) list option" where
  "heap_blocks st = blocks_from st (mem_heap_lo st + ALIGN (of_int MAXPOW * 8))"

text \<open>The entries of one bucket from its head along the next links: address and size.\<close>

partial_function (option) links_from :: "heap_state \<Rightarrow> addr \<Rightarrow> (addr \<times> size_t) list option" where
  "links_from st p =
     (if p \<noteq> 0
      then do {
        rest \<leftarrow> links_from st (GETNEXTFREE st p);
        Some ((p, GETSIZE (load st p)) # rest)
      }
      else Some [])"

declare links_from.simps [code]

definition bucket :: "heap_state \<Rightarrow> int \<Rightarrow> (addr \<times> size_t) list option" where
  "bucket st index = links_from st (seglist_get st index)"

definition bucket_heads :: "heap_state \<Rightarrow> addr list" where
  "bucket_heads st = map (\<lambda>i. seglist_get st (int i)) [0 ..< nat MAXPOW]"

text \<open>Two neighbours of a list of blocks have both their header flag clear.\<close>

fun adjacent_free :: "(addr \<times> size_t \<times> size_t) list \<Rightarrow> bool" where
  "adjacent_free ((a, h, f) # (b, k, g) # bs) =
     ((GETDIRTYBIT h = 0 \<and> GETDIRTYBIT k = 0) \<or> adjacent_free ((b, k, g) # bs))"
| "adjacent_free bs = False"

text \<open>The \<open>n\<close> bytes from \<open>p\<close> and the \<open>m\<close> bytes from \<open>q\<close> share a byte.\<close>

definition regions_overlap :: "addr \<Rightarrow> size_t \<Rightarrow> addr \<Rightarrow> size_t \<Rightarrow> bool" where
  "regions_overlap p n q m = (p < q + m \<and> q < p + n)"

text \<open>A provider with room for 2500 bytes only.\<close>

definition small_heap :: "(addr \<Rightarrow> size_t) \<Rightarrow> heap_state" where
  "small_heap m0 = fresh_heap m0 heap_base 2500"

text \<open>A provider with room for 1400 bytes only.\<close>

definition tight_heap :: "(addr \<Rightarrow> size_t) \<Rightarrow> heap_state" where
  "tight_heap m0 = fresh_heap m0 heap_base 1400"

text \<open>The state after \<^verbatim>\<open>init(); p = allocate(16); deallocate(p)\<close> on the 20 MiB provider.\<close>

definition freed_once :: heap_state where
  "freed_once =
     (case final (heap0 zero_mem) [Malloc 16, Free 0] of Some s \<Rightarrow> s | None \<Rightarrow> heap0 zero_mem)"

section \<open>The claims\<close>

text \<open>
  Addresses are written as offsets from \<open>heap_base\<close>. The bucket array takes the first
  200 bytes of the heap, so the first block starts at \<open>heap_base + 200\<close> and its payload
  at \<open>heap_base + 208\<close>. The traces hold for every initial content \<open>m0\<close> of the
  memory; the caller stores nothing in its payloads.
\<close>

text \<open>
  C1 (live regions are large enough, aligned and disjoint on every valid trace) fails on
  the code. In the trace
  \<^verbatim>\<open>init(); a = allocate(496); b = allocate(496); deallocate(b); a = reallocate(a, 240);
  x = allocate(240); y = allocate(240)\<close>
  nothing is freed twice or used after its release, and the last two allocations return the
  same address: \<open>x\<close> and \<open>y\<close> are both live and are the same 240 bytes. The shrinking
  \<^verbatim>\<open>mm_realloc\<close> links the tail under its size before \<^verbatim>\<open>mm_coalesce\<close> grows it, so
  the tail stays the head of a bucket that \<^verbatim>\<open>remove_link\<close> never clears.
\<close>

theorem shrink_then_two_mallocs_return_same_block:
  "returned (heap0 m0) [Malloc 496, Malloc 496, Free 1, Realloc 0 240, Malloc 240, Malloc 240] =
     Some [heap_base + 208, heap_base + 720, heap_base + 208, heap_base + 464, heap_base + 464] \<and>
   regions_overlap (heap_base + 464) 240 (heap_base + 464) 240"
  by code_simp

text \<open>
  A second trace against the same property, through the last-block path of
  \<^verbatim>\<open>mm_realloc\<close>: the block moves down to the free previous block's header, the old
  pointer is returned, and the 2000 bytes from it run past the end of the heap, where the
  next allocation is placed.
\<close>

lemma realloc_last_returns_old_pointer:
  "returned (heap0 m0) [Malloc 16, Malloc 16, Malloc 1000, Realloc 2 2000, Malloc 16] =
     Some [heap_base + 208, heap_base + 240, heap_base + 304, heap_base + 304,
           heap_base + 2288] \<and>
   Option.bind (final (heap0 m0) [Malloc 16, Malloc 16, Malloc 1000, Realloc 2 2000]) heap_blocks =
     Some [(heap_base + 200, 33, 33), (heap_base + 232, 33, 33), (heap_base + 264, 2017, 2017)] \<and>
   regions_overlap (heap_base + 304) 2000 (heap_base + 2288) 16"
  by code_simp

text \<open>
  C2 (header and footer of every block agree in size and in flag between calls) fails on
  the code. After \<^verbatim>\<open>init(); p = allocate(16); deallocate(p)\<close> the only block of the heap
  has the header 32 (free) and the footer 33 (allocated): \<^verbatim>\<open>mm_free\<close> clears the flag of
  the header only. The sizes agree.
\<close>

theorem free_leaves_footer_flag_set:
  "Option.bind (final (heap0 m0) [Malloc 16, Free 0]) heap_blocks =
     Some [(heap_base + 200, 32, 33)] \<and>
   GETSIZE 32 = GETSIZE 33 \<and> GETDIRTYBIT 32 \<noteq> GETDIRTYBIT 33"
  by code_simp

text \<open>
  C3 (scenario A: \<open>p3 = p1\<close>) fails on the code. The three pointers of
  \<^verbatim>\<open>init(); p1 = allocate(16); p2 = allocate(16); deallocate(p1); p3 = allocate(16)\<close>
  are \<open>heap_base + 208\<close>, \<open>heap_base + 240\<close> and \<open>heap_base + 272\<close>. The first
  allocation grows the heap by its need of 32 bytes only (the defect of C7), so it is the
  second one that grows the heap by 64 bytes and leaves the free half at the head of
  bucket 0; the freed block of \<open>p1\<close> is linked behind that head, and the third
  allocation takes the head.
\<close>

theorem scenario_A_third_is_not_first:
  "returned (heap0 m0) [Malloc 16, Malloc 16, Free 0, Malloc 16] =
     Some [heap_base + 208, heap_base + 240, heap_base + 272] \<and>
   heap_base + 272 \<noteq> heap_base + 208 \<and>
   map_option mem_brk (final (heap0 m0) [Malloc 16]) = Some (heap_base + 200 + 32) \<and>
   Option.bind (final (heap0 m0) [Malloc 16, Malloc 16]) heap_blocks =
     Some [(heap_base + 200, 33, 33), (heap_base + 232, 33, 33), (heap_base + 264, 32, 32)] \<and>
   Option.bind (final (heap0 m0) [Malloc 16, Malloc 16, Free 0]) (\<lambda>s. bucket s 0) =
     Some [(heap_base + 264, 32), (heap_base + 200, 32)] \<and>
   Option.bind (final (heap0 m0) [Malloc 16, Malloc 16, Free 0, Malloc 16]) (\<lambda>s. bucket s 0) =
     Some [(heap_base + 200, 32)]"
  by code_simp

text \<open>
  C4 (a bucket is sorted ascending by size after every insert) fails on the code. After
  \<^verbatim>\<open>init(); p1 = allocate(32); p2 = allocate(16); p3 = allocate(16); deallocate(p1);
  deallocate(p3)\<close> bucket 0 holds the block of 48 bytes before the block of 32 bytes:
  \<^verbatim>\<open>add_to_list\<close> never links a block before the head, and its walk compares the address
  of the next entry, not its size, with the size of the new block.
\<close>

theorem bucket_unsorted_after_insert:
  "Option.bind (final (heap0 m0) [Malloc 32, Malloc 16, Malloc 16, Free 0, Free 2])
       (\<lambda>s. bucket s 0) =
     Some [(heap_base + 200, 48), (heap_base + 280, 32)] \<and>
   \<not> sorted [48 :: size_t, 32]"
  by code_simp

text \<open>
  C5 (a refused extension makes allocate and reallocate fail with nothing changed) fails
  on the code. On the provider of 2500 bytes, after
  \<^verbatim>\<open>init(); p = allocate(1000); q = allocate(1000); deallocate(p); deallocate(q)\<close> the
  heap is one free block of 2032 bytes, linked in bucket 5, and the provider refuses 984
  more bytes. \<^verbatim>\<open>allocate(3000)\<close> then returns the payload of that block, not null: the
  block is unlinked and its header reads 3016 bytes, allocated, while the heap has not
  grown. The result of \<^verbatim>\<open>mem_sbrk\<close> on this path is not looked at.
\<close>

theorem malloc_on_refused_extension_returns_block:
  "returned (small_heap m0) [Malloc 1000, Malloc 1000, Free 0, Free 1, Malloc 3000] =
     Some [heap_base + 208, heap_base + 1224, heap_base + 208] \<and>
   map_option (\<lambda>s. fst (mem_sbrk s 984))
       (final (small_heap m0) [Malloc 1000, Malloc 1000, Free 0, Free 1]) = Some 0 \<and>
   Option.bind (final (small_heap m0) [Malloc 1000, Malloc 1000, Free 0, Free 1]) heap_blocks =
     Some [(heap_base + 200, 2032, 2032)] \<and>
   Option.bind (final (small_heap m0) [Malloc 1000, Malloc 1000, Free 0, Free 1])
       (\<lambda>s. bucket s 5) =
     Some [(heap_base + 200, 2032)] \<and>
   map_option mem_brk (final (small_heap m0) [Malloc 1000, Malloc 1000, Free 0, Free 1]) =
     Some (heap_base + 2232) \<and>
   Option.bind (final (small_heap m0) [Malloc 1000, Malloc 1000, Free 0, Free 1, Malloc 3000])
       (\<lambda>s. Some (load s (heap_base + 200))) = Some 3017 \<and>
   Option.bind (final (small_heap m0) [Malloc 1000, Malloc 1000, Free 0, Free 1, Malloc 3000])
       (\<lambda>s. bucket s 5) =
     Some [] \<and>
   map_option mem_brk (final (small_heap m0) [Malloc 1000, Malloc 1000, Free 0, Free 1, Malloc 3000]) =
     Some (heap_base + 2232)"
  by code_simp

text \<open>
  The same property for \<^verbatim>\<open>mm_realloc\<close>, on the provider of 1400 bytes: growing the
  last block of the heap behind a free block, the free block is unlinked and the payload
  moved down over the header of the block before \<^verbatim>\<open>mem_sbrk\<close> is asked; the provider
  refuses the 968 bytes, null is returned, and the header of the caller's block holds
  what its payload held 24 bytes in.
\<close>

lemma realloc_last_mutates_before_refused_extension:
  "returned (tight_heap m0) [Malloc 16, Malloc 16, Malloc 1000, Realloc 2 2000] =
     Some [heap_base + 208, heap_base + 240, heap_base + 304, 0] \<and>
   Option.bind (final (tight_heap m0) [Malloc 16, Malloc 16, Malloc 1000]) (\<lambda>s. bucket s 0) =
     Some [(heap_base + 264, 32)] \<and>
   map_option (\<lambda>s. load s (heap_base + 296))
       (final (tight_heap m0) [Malloc 16, Malloc 16, Malloc 1000]) = Some 1017 \<and>
   Option.bind (final (tight_heap m0) [Malloc 16, Malloc 16, Malloc 1000, Realloc 2 2000])
       (\<lambda>s. bucket s 0) = Some [] \<and>
   map_option (\<lambda>s. load s (heap_base + 296))
       (final (tight_heap m0) [Malloc 16, Malloc 16, Malloc 1000, Realloc 2 2000]) =
     Some (m0 (heap_base + 328))"
  by code_simp

text \<open>
  C6 (a deallocate of a pointer whose block is already free is reported and changes
  nothing) fails on the code. In
  \<^verbatim>\<open>init(); p0 = allocate(16); p1 = allocate(16); p2 = allocate(16); deallocate(p0);
  deallocate(p1); deallocate(p1)\<close>
  the first \<^verbatim>\<open>deallocate(p1)\<close> merges the block of \<open>p1\<close> into the free block before
  it: \<open>p1\<close> then lies in the free block of 64 bytes at \<open>heap_base + 200\<close>, and the word
  before \<open>p1\<close>, no header any more, still reads 33. \<^verbatim>\<open>mm_free\<close> tests that word, so the
  second \<^verbatim>\<open>deallocate(p1)\<close> prints nothing, rewrites the word to 32 and links a block
  of 32 bytes at \<open>heap_base + 232\<close>, inside the free block, into bucket 0.
\<close>

theorem double_free_after_merge_not_reported:
  "returned (heap0 m0) [Malloc 16, Malloc 16, Malloc 16, Free 0, Free 1] =
     Some [heap_base + 208, heap_base + 240, heap_base + 272] \<and>
   Option.bind (final (heap0 m0) [Malloc 16, Malloc 16, Malloc 16, Free 0, Free 1]) heap_blocks =
     Some [(heap_base + 200, 64, 64), (heap_base + 264, 33, 33)] \<and>
   map_option (\<lambda>s. load s (heap_base + 240 - SIZE_T_SIZE))
       (final (heap0 m0) [Malloc 16, Malloc 16, Malloc 16, Free 0, Free 1]) = Some 33 \<and>
   Option.bind (final (heap0 m0) [Malloc 16, Malloc 16, Malloc 16, Free 0, Free 1])
       (\<lambda>s. bucket s 0) = Some [] \<and>
   Option.bind (final (heap0 m0) [Malloc 16, Malloc 16, Malloc 16, Free 0, Free 1])
       (\<lambda>s. bucket s 1) = Some [(heap_base + 200, 64)] \<and>
   map_option stdout
       (final (heap0 m0) [Malloc 16, Malloc 16, Malloc 16, Free 0, Free 1, Free 1]) = Some [] \<and>
   map_option (\<lambda>s. load s (heap_base + 240 - SIZE_T_SIZE))
       (final (heap0 m0) [Malloc 16, Malloc 16, Malloc 16, Free 0, Free 1, Free 1]) = Some 32 \<and>
   Option.bind (final (heap0 m0) [Malloc 16, Malloc 16, Malloc 16, Free 0, Free 1, Free 1])
       (\<lambda>s. bucket s 0) = Some [(heap_base + 232, 32)] \<and>
   Option.bind (final (heap0 m0) [Malloc 16, Malloc 16, Malloc 16, Free 0, Free 1, Free 1])
       (\<lambda>s. bucket s 1) = Some [(heap_base + 200, 64)]"
  by code_simp

text \<open>
  What \<^verbatim>\<open>mm_free\<close> does catch: when the word before the pointer has its flag clear,
  the warning is printed and memory, the bounds of the heap and the bucket array are as
  before. This is the case of a block freed twice that was not merged backward in between.
\<close>

lemma mm_free_of_clear_header_changes_nothing:
  "GETDIRTYBIT (load st (ptr - SIZE_T_SIZE)) = 0 \<Longrightarrow>
   mm_free st ptr = Some (st\<lparr>stdout := stdout st @ [free_warning]\<rparr>)"
  by (simp add: mm_free_def printf_def Let_def)

lemma mm_free_of_clear_header_changes_nothing_witness:
  "GETDIRTYBIT (load freed_once (heap_base + 208 - SIZE_T_SIZE)) = 0 \<and>
   mm_free freed_once (heap_base + 208) =
     Some (freed_once\<lparr>stdout := stdout freed_once @ [free_warning]\<rparr>)"
proof -
  have h: "GETDIRTYBIT (load freed_once (heap_base + 208 - SIZE_T_SIZE)) = 0"
    by code_simp
  from h mm_free_of_clear_header_changes_nothing [OF h] show ?thesis
    by simp
qed

text \<open>
  C7 (no candidate, block region empty or last block allocated, small need: the heap grows
  by twice the need and the second half becomes a free block) fails on the code where the
  block region is empty. After \<^verbatim>\<open>init()\<close> the heap is the bucket array alone, no
  bucket has an entry, and \<^verbatim>\<open>allocate(16)\<close> (need 32) grows the heap by 32 bytes and
  links no free block: the heap size is not zero, and the word read as the footer of the
  last block is the last bucket head, null, which reads as a free block of size zero.
\<close>

theorem first_malloc_extends_by_need_only:
  "mem_brk (snd (mm_init (heap0 m0))) = heap_base + 200 \<and>
   heap_blocks (snd (mm_init (heap0 m0))) = Some [] \<and>
   get_optimal_free_block (snd (mm_init (heap0 m0))) 32 = Some 0 \<and>
   returned (heap0 m0) [Malloc 16] = Some [heap_base + 208] \<and>
   map_option mem_brk (final (heap0 m0) [Malloc 16]) = Some (heap_base + 200 + 32) \<and>
   Option.bind (final (heap0 m0) [Malloc 16]) heap_blocks = Some [(heap_base + 200, 33, 33)] \<and>
   map_option bucket_heads (final (heap0 m0) [Malloc 16]) = Some (replicate 25 0)"
  by code_simp

text \<open>
  Where the last block is allocated the code does double: the second \<^verbatim>\<open>allocate(16)\<close>
  grows the heap by 64 bytes and links the second half in bucket 0.
\<close>

lemma second_malloc_extends_by_twice_need:
  "map_option mem_brk (final (heap0 m0) [Malloc 16]) = Some (heap_base + 232) \<and>
   map_option mem_brk (final (heap0 m0) [Malloc 16, Malloc 16]) = Some (heap_base + 232 + 64) \<and>
   returned (heap0 m0) [Malloc 16, Malloc 16] = Some [heap_base + 208, heap_base + 240] \<and>
   Option.bind (final (heap0 m0) [Malloc 16, Malloc 16]) (\<lambda>s. bucket s 0) =
     Some [(heap_base + 264, 32)]"
  by code_simp

text \<open>
  C8 (every free block is linked in the bucket of its current size, also after a
  shrinking reallocate) fails on the code. After
  \<^verbatim>\<open>init(); a = allocate(496); b = allocate(496); deallocate(b); reallocate(a, 240)\<close>
  the tail of 256 bytes has absorbed the free block of 512 bytes behind it: it is a free
  block of 768 bytes linked in bucket 3, where it was put with 256 bytes, and bucket 4, its
  size class, is empty.
\<close>

theorem shrink_tail_linked_in_wrong_bucket:
  "Option.bind (final (heap0 m0) [Malloc 496, Malloc 496, Free 1, Realloc 0 240]) heap_blocks =
     Some [(heap_base + 200, 257, 257), (heap_base + 456, 768, 768)] \<and>
   Option.bind (final (heap0 m0) [Malloc 496, Malloc 496, Free 1, Realloc 0 240])
       (\<lambda>s. bucket s 3) =
     Some [(heap_base + 456, 768)] \<and>
   Option.bind (final (heap0 m0) [Malloc 496, Malloc 496, Free 1, Realloc 0 240])
       (\<lambda>s. bucket s 4) =
     Some [] \<and>
   seglist_index 256 = 3 \<and> seglist_index 768 = 4"
  by code_simp

text \<open>
  C9 (after a deallocate no two neighbours are both free) fails on the code. The trace
  \<^verbatim>\<open>init(); a = allocate(496); b = allocate(496); deallocate(b); a = reallocate(a, 240);
  x = allocate(240); x = reallocate(x, 500); y = allocate(240); deallocate(a)\<close>
  frees nothing twice and ends with the free blocks of 264 and of 248 bytes side by side.
  The block of \<open>x\<close> is still the head of bucket 3 (see C8) when \<open>y\<close> is allocated, so it
  is split a second time, and its remainder lands before the free block that the growing
  reallocate left.
\<close>

theorem free_leaves_adjacent_free_blocks:
  "Option.bind (final (heap0 m0) [Malloc 496, Malloc 496, Free 1, Realloc 0 240, Malloc 240,
       Realloc 3 500, Malloc 240, Free 2]) heap_blocks =
     Some [(heap_base + 200, 256, 257), (heap_base + 456, 257, 257),
           (heap_base + 712, 264, 264), (heap_base + 976, 248, 248)] \<and>
   adjacent_free [(heap_base + 200, 256, 257), (heap_base + 456, 257, 257),
                  (heap_base + 712, 264, 264), (heap_base + 976, 248, 248)]"
  by code_simp

text \<open>
  C10: \<^verbatim>\<open>mm_init\<close> returns 1, not its failure result 0, whenever the base address of
  the heap is not null; what \<^verbatim>\<open>mem_sbrk\<close> returned plays no part. The witness is a
  provider of 100 bytes, which refuses the 200 bytes of the bucket array.
\<close>

theorem mm_init_ignores_extension_result:
  "mem_heap_lo st \<noteq> 0 \<Longrightarrow> fst (mm_init st) = 1"
  by (simp add: mm_init_def mem_heap_lo_def mem_sbrk_def Let_def)

theorem mm_init_ignores_extension_result_witness:
  "mem_heap_lo (fresh_heap zero_mem heap_base 100) \<noteq> 0 \<and>
   fst (mem_sbrk (fresh_heap zero_mem heap_base 100) (int_of_size_t (ALIGN (of_int MAXPOW * 8)))) = 0 \<and>
   fst (mm_init (fresh_heap zero_mem heap_base 100)) = 1"
proof -
  have h: "mem_heap_lo (fresh_heap zero_mem heap_base 100) \<noteq> 0"
    by code_simp
  have r: "fst (mem_sbrk (fresh_heap zero_mem heap_base 100)
                  (int_of_size_t (ALIGN (of_int MAXPOW * 8)))) = 0"
    by code_simp
  from h r mm_init_ignores_extension_result [OF h] show ?thesis
    by simp
qed

end
